theory Spec2Isabelle
  imports Complex_Main
begin

section \<open>Data model of backend/app.py\<close>

text \<open>
  The registration and login handlers of \<^verbatim>\<open>backend/app.py\<close> work on two pieces of
  state: the SQLite table \<^verbatim>\<open>users\<close> and the module-level dictionary
  \<^verbatim>\<open>verification_codes\<close>. Everything else they touch is outside the process (the
  clock, the random generator, SMTP, Firebase, the environment variables); those
  answers are collected in a record \<open>world\<close> that every handler call receives.

  Strings are \<open>char list\<close>. A JSON field that is absent or null reads as \<^verbatim>\<open>None\<close> in
  the handlers, which their presence checks \<^verbatim>\<open>not all([...])\<close> and \<^verbatim>\<open>not x\<close> treat
  exactly like the empty string; the handlers below therefore take strings, the
  empty string standing for a missing field. Time stamps are real numbers.
\<close>

text \<open>A row of \<^verbatim>\<open>users\<close> (the columns the handlers read or write); \<^verbatim>\<open>phone\<close> may be NULL.\<close>

record user_row =
  row_id :: nat
  row_name :: string
  row_email :: string
  row_password :: string
  row_phone :: "string option"

text \<open>An entry of \<^verbatim>\<open>verification_codes\<close>.\<close>

record ticket =
  code :: string
  expires_at :: real
  name :: string
  password :: string
  phone :: string

record state =
  users :: "user_row list"
  users_seq :: nat
  verification_codes :: "string \<rightharpoonup> ticket"

text \<open>The \<^verbatim>\<open>user\<close> object of a JSON answer.\<close>

record user_view =
  view_id :: nat
  view_name :: string
  view_email :: string
  view_phone :: string

text \<open>
  A JSON answer is \<^verbatim>\<open>{'success': b, 'message': m}\<close> or
  \<^verbatim>\<open>{'success': True, 'user': {...}}\<close>; an exception that no handler catches makes
  Flask answer 500 without a JSON body. A response pairs the body with the HTTP status.
\<close>

datatype body = Message bool string | UserBody user_view | InternalServerError

type_synonym response = "body \<times> nat"

fun succeeded :: "response \<Rightarrow> bool" where
  "succeeded (Message b m, st) = b"
| "succeeded (UserBody v, st) = True"
| "succeeded (InternalServerError, st) = False"

subsection \<open>The outside world\<close>

text \<open>What \<^verbatim>\<open>requests.post\<close> to the identity toolkit gives: an exception of the
  \<^verbatim>\<open>requests\<close> library (network, timeout, a body that is not JSON), a response with
  its status code, the \<^verbatim>\<open>error.message\<close> of its JSON and its \<^verbatim>\<open>localId\<close>, or a
  response whose JSON has another shape, on which the \<^verbatim>\<open>.get\<close> calls raise an
  exception that nothing catches.\<close>

datatype http_reply =
  RequestException | HttpResponse nat "string option" "string option" | BadPayload

text \<open>What \<^verbatim>\<open>firebase_auth.create_user\<close> does: returns the new user's uid or raises.\<close>

datatype create_reply = Created string | EmailAlreadyExistsError | CreateException

text \<open>What \<^verbatim>\<open>firebase_auth.get_user\<close> does: returns a profile (display name and
  phone number, each optional) or raises.\<close>

datatype profile_reply =
  Profile "string option" "string option" | UserNotFoundError | ProfileException

record world =
  FIREBASE_WEB_API_KEY :: "string option"
  ADMIN_EMAIL_env :: "string option"
  sha256_hexdigest :: "string \<Rightarrow> string"
  time_now :: real
  randint :: "nat \<Rightarrow> nat"
  smtp_delivers :: "string \<Rightarrow> string \<Rightarrow> string \<Rightarrow> bool"
  signInWithPassword :: "string \<Rightarrow> string \<Rightarrow> http_reply"
  create_user :: "string \<Rightarrow> string \<Rightarrow> string \<Rightarrow> create_reply"
  get_user :: "string \<Rightarrow> profile_reply"

section \<open>Helpers\<close>

text \<open>Python's truth value of an optional string and of an optional number.\<close>

fun truthy :: "string option \<Rightarrow> bool" where
  "truthy None = False"
| "truthy (Some s) = (s \<noteq> [])"

fun truthy_status :: "nat option \<Rightarrow> bool" where
  "truthy_status None = False"
| "truthy_status (Some n) = (n \<noteq> 0)"

text \<open>\<^verbatim>\<open>str.lower\<close> on ASCII letters; every other character is left as it is.\<close>

definition lower_char :: "char \<Rightarrow> char" where
  "lower_char c =
     (let n = (of_char c :: nat) in if 65 \<le> n \<and> n \<le> 90 then char_of (n + 32) else c)"

definition lower :: "string \<Rightarrow> string" where
  "lower s = map lower_char s"

text \<open>\<^verbatim>\<open>str.strip\<close>: removes leading and trailing ASCII white space.\<close>

definition is_space :: "char \<Rightarrow> bool" where
  "is_space c =
     (let n = (of_char c :: nat) in (9 \<le> n \<and> n \<le> 13) \<or> (28 \<le> n \<and> n \<le> 32))"

definition strip :: "string \<Rightarrow> string" where
  "strip s = rev (dropWhile is_space (rev (dropWhile is_space s)))"

text \<open>\<^verbatim>\<open>email.split('@')[0]\<close>: the text before the first \<^verbatim>\<open>@\<close>.\<close>

definition local_part :: "string \<Rightarrow> string" where
  "local_part e = takeWhile (\<lambda>c. c \<noteq> CHR ''@'') e"

definition hash_password :: "world \<Rightarrow> string \<Rightarrow> string" where
  "hash_password w pw = sha256_hexdigest w pw"

definition verify_password :: "world \<Rightarrow> string \<Rightarrow> string \<Rightarrow> bool" where
  "verify_password w stored_hash candidate =
     (if stored_hash = [] then False else stored_hash = hash_password w candidate)"

definition fetch_local_user :: "state \<Rightarrow> string \<Rightarrow> user_row option" where
  "fetch_local_user s e = find (\<lambda>u. row_email u = e) (users s)"

text \<open>
  \<^verbatim>\<open>INSERT INTO users (name, email, password, phone)\<close>: the column \<^verbatim>\<open>email\<close> is
  UNIQUE, so the statement raises \<^verbatim>\<open>sqlite3.IntegrityError\<close> (\<open>None\<close>) when the email
  is there already; otherwise the AUTOINCREMENT key is one more than the largest
  key ever used. The result carries \<^verbatim>\<open>cursor.lastrowid\<close>.
\<close>

definition next_rowid :: "state \<Rightarrow> nat" where
  "next_rowid s = Suc (fold max (map row_id (users s)) (users_seq s))"

definition insert_user ::
  "state \<Rightarrow> string \<Rightarrow> string \<Rightarrow> string \<Rightarrow> string \<Rightarrow> (state \<times> nat) option" where
  "insert_user s n e pw ph =
     (if e \<in> set (map row_email (users s)) then None
      else
        let i = next_rowid s;
            r = \<lparr>row_id = i, row_name = n, row_email = e, row_password = pw,
                 row_phone = Some ph\<rparr>
        in Some (s\<lparr>users := users s @ [r], users_seq := i\<rparr>, i))"

definition VERIFICATION_CODE_EXPIRY :: real where
  "VERIFICATION_CODE_EXPIRY = 600"

text \<open>\<^verbatim>\<open>''.join([str(random.randint(0, 9)) for _ in range(6)])\<close>: the world gives the
  six draws, each reduced to the range of \<^verbatim>\<open>randint(0, 9)\<close>.\<close>

definition digit_str :: "nat \<Rightarrow> string" where
  "digit_str d = [char_of (48 + d)]"

definition generate_verification_code :: "world \<Rightarrow> string" where
  "generate_verification_code w =
     concat (map (\<lambda>i. digit_str (randint w i mod 10)) [0, 1, 2, 3, 4, 5])"

definition send_verification_email :: "world \<Rightarrow> string \<Rightarrow> string \<Rightarrow> string \<Rightarrow> bool" where
  "send_verification_email w e c n = smtp_delivers w e c n"

definition ADMIN_EMAIL :: "world \<Rightarrow> string" where
  "ADMIN_EMAIL w = (case ADMIN_EMAIL_env w of None \<Rightarrow> ''admin@shophub.com'' | Some a \<Rightarrow> a)"

definition pop_code :: "state \<Rightarrow> string \<Rightarrow> state" where
  "pop_code s k = s\<lparr>verification_codes := (verification_codes s)(k := None)\<rparr>"

section \<open>The outcomes the handlers answer with\<close>

definition FieldsRequired :: response where
  "FieldsRequired = (Message False ''All fields are required'', 400)"

definition CodeRequired :: response where
  "CodeRequired = (Message False ''Verification code is required'', 400)"

definition AlreadyRegistered :: response where
  "AlreadyRegistered = (Message False ''Email already registered'', 400)"

definition ReservedEmail :: response where
  "ReservedEmail = (Message False ''This email is reserved for admin use.'', 400)"

definition CodeSent :: response where
  "CodeSent =
     (Message True ''Verification code sent to your email. Please check your inbox.'', 200)"

definition DeliveryFailed :: response where
  "DeliveryFailed =
     (Message False ''Failed to send verification email. Please try again.'', 500)"

definition CodeNotFound :: response where
  "CodeNotFound =
     (Message False ''Verification code not found. Please request a new code.'', 400)"

definition CodeExpired :: response where
  "CodeExpired =
     (Message False ''Verification code has expired. Please request a new code.'', 400)"

definition CodeMismatch :: response where
  "CodeMismatch = (Message False ''Invalid verification code. Please try again.'', 400)"

definition DataMismatch :: response where
  "DataMismatch = (Message False ''Registration data mismatch. Please start over.'', 400)"

definition RegistrationFailed :: response where
  "RegistrationFailed = (Message False ''Registration failed'', 500)"

definition InvalidCredentials :: "string \<times> nat" where
  "InvalidCredentials = (''Invalid email or password'', 401)"

section \<open>Registration\<close>

definition send_verification ::
  "world \<Rightarrow> state \<Rightarrow> string \<Rightarrow> string \<Rightarrow> string \<Rightarrow> string \<Rightarrow> response \<times> state" where
  "send_verification w s nm email pw ph =
     (if nm = [] \<or> email = [] \<or> pw = [] \<or> ph = [] then (FieldsRequired, s)
      else if fetch_local_user s email \<noteq> None then (AlreadyRegistered, s)
      else if lower email = lower (ADMIN_EMAIL w) then (ReservedEmail, s)
      else
        let c = generate_verification_code w;
            e = time_now w + VERIFICATION_CODE_EXPIRY;
            s1 = s\<lparr>verification_codes := (verification_codes s)(lower email \<mapsto>
                    \<lparr>code = c, expires_at = e, name = nm, password = pw, phone = ph\<rparr>)\<rparr>
        in if send_verification_email w email c nm then (CodeSent, s1)
           else (DeliveryFailed, pop_code s1 (lower email)))"

definition register_user ::
  "world \<Rightarrow> state \<Rightarrow> string \<Rightarrow> string \<Rightarrow> string \<Rightarrow> string \<Rightarrow> string \<Rightarrow> response \<times> state" where
  "register_user w s nm email pw ph verification_code =
     (if nm = [] \<or> email = [] \<or> pw = [] \<or> ph = [] then (FieldsRequired, s)
      else if verification_code = [] then (CodeRequired, s)
      else if fetch_local_user s email \<noteq> None then (AlreadyRegistered, s)
      else
        let email_lower = lower email in
        case verification_codes s email_lower of
          None \<Rightarrow> (CodeNotFound, s)
        | Some stored_data \<Rightarrow>
            if time_now w > expires_at stored_data then (CodeExpired, pop_code s email_lower)
            else if code stored_data \<noteq> verification_code then (CodeMismatch, s)
            else if name stored_data \<noteq> nm \<or> password stored_data \<noteq> pw
                    \<or> phone stored_data \<noteq> ph then (DataMismatch, s)
            else
              (case create_user w email pw (strip nm) of
                 EmailAlreadyExistsError \<Rightarrow> (AlreadyRegistered, pop_code s email_lower)
               | CreateException \<Rightarrow> (RegistrationFailed, pop_code s email_lower)
               | Created uid \<Rightarrow>
                   (case insert_user s nm email (hash_password w pw) ph of
                      None \<Rightarrow> (RegistrationFailed, pop_code s email_lower)
                    | Some (s', user_id) \<Rightarrow>
                        ((UserBody \<lparr>view_id = user_id, view_name = nm, view_email = email,
                                    view_phone = ph\<rparr>, 200),
                         pop_code s' email_lower))))"

section \<open>Login\<close>

text \<open>What \<^verbatim>\<open>login_user\<close> gets out of the remote path: the \<^verbatim>\<open>localId\<close> of a
  successful sign-in, a failure with its message and status, or an uncaught exception.\<close>

datatype sign_in_result = SignInOk "string option" | SignInFailed string nat | SignInRaised

definition friendly_messages :: "string option \<Rightarrow> string" where
  "friendly_messages error_code =
     (if error_code = Some ''EMAIL_NOT_FOUND'' then ''Invalid email or password''
      else if error_code = Some ''INVALID_PASSWORD'' then ''Invalid email or password''
      else if error_code = Some ''USER_DISABLED''
        then ''Your account has been disabled. Please contact support.''
      else ''Unable to sign in with Firebase'')"

definition sign_in_with_firebase :: "world \<Rightarrow> string \<Rightarrow> string \<Rightarrow> sign_in_result" where
  "sign_in_with_firebase w email pw =
     (case signInWithPassword w email pw of
        HttpResponse status_code error_code local_id \<Rightarrow>
          if status_code = 200 then SignInOk local_id
          else SignInFailed (friendly_messages error_code) 401
      | RequestException \<Rightarrow>
          SignInFailed ''Authentication service is unreachable. Please try again shortly.'' 503
      | BadPayload \<Rightarrow> SignInRaised)"

text \<open>Lines 96 to 109 of \<^verbatim>\<open>ensure_local_user_record\<close>: the name and the phone of a
  new record. They default to the text before the \<^verbatim>\<open>@\<close> and to the empty string;
  the Firebase profile, when there is a uid and the profile can be read, replaces
  each of them by its own non-empty value.\<close>

definition new_record_fields :: "world \<Rightarrow> string \<Rightarrow> string option \<Rightarrow> string \<times> string" where
  "new_record_fields w email firebase_uid =
     (let name0 = local_part email;
          phone0 = []
      in case firebase_uid of
           None \<Rightarrow> (name0, phone0)
         | Some uid \<Rightarrow>
             if uid = [] then (name0, phone0)
             else
               (case get_user w uid of
                  Profile display_name phone_number \<Rightarrow>
                    (if truthy display_name then the display_name else name0,
                     if truthy phone_number then the phone_number else phone0)
                | UserNotFoundError \<Rightarrow> (name0, phone0)
                | ProfileException \<Rightarrow> (name0, phone0)))"

text \<open>The result is the row, or \<open>None\<close> with the state untouched when the INSERT raises
  (nothing catches that exception on the way up to Flask).\<close>

definition ensure_local_user_record ::
  "world \<Rightarrow> state \<Rightarrow> string \<Rightarrow> string \<Rightarrow> string option \<Rightarrow> (user_row option \<times> state) option" where
  "ensure_local_user_record w s email pw firebase_uid =
     (case fetch_local_user s email of
        Some user \<Rightarrow> Some (Some user, s)
      | None \<Rightarrow>
          (case insert_user s (fst (new_record_fields w email firebase_uid)) email
                  (hash_password w pw) (snd (new_record_fields w email firebase_uid)) of
             None \<Rightarrow> None
           | Some (s', i) \<Rightarrow> Some (fetch_local_user s' email, s')))"

datatype local_result = LocalOk user_row | LocalFailed string nat

definition authenticate_locally :: "world \<Rightarrow> state \<Rightarrow> string \<Rightarrow> string \<Rightarrow> local_result" where
  "authenticate_locally w s email pw =
     (case fetch_local_user s email of
        None \<Rightarrow> LocalFailed ''Invalid email or password'' 401
      | Some user \<Rightarrow>
          if verify_password w (row_password user) pw then LocalOk user
          else LocalFailed ''Invalid email or password'' 401)"

definition build_user_response :: "user_row option \<Rightarrow> body" where
  "build_user_response user_row =
     (case user_row of
        None \<Rightarrow> Message False ''User not found''
      | Some r \<Rightarrow>
          UserBody \<lparr>view_id = row_id r, view_name = row_name r, view_email = row_email r,
                    view_phone = (if truthy (row_phone r) then the (row_phone r) else [])\<rparr>)"

definition login_user :: "world \<Rightarrow> state \<Rightarrow> string \<Rightarrow> string \<Rightarrow> response \<times> state" where
  "login_user w s email pw =
     (if email = [] \<or> pw = [] then ((Message False ''Email and password are required'', 400), s)
      else
        let firebase_result =
              (if truthy (FIREBASE_WEB_API_KEY w) then Some (sign_in_with_firebase w email pw)
               else None)
        in case firebase_result of
             Some (SignInOk firebase_uid) \<Rightarrow>
               (case ensure_local_user_record w s email pw firebase_uid of
                  None \<Rightarrow> ((InternalServerError, 500), s)
                | Some (user, s') \<Rightarrow> ((build_user_response user, 200), s'))
           | Some SignInRaised \<Rightarrow> ((InternalServerError, 500), s)
           | _ \<Rightarrow>
               let firebase_message =
                     (case firebase_result of Some (SignInFailed m st) \<Rightarrow> Some m | _ \<Rightarrow> None);
                   firebase_status =
                     (case firebase_result of Some (SignInFailed m st) \<Rightarrow> Some st | _ \<Rightarrow> None)
               in (case authenticate_locally w s email pw of
                     LocalOk user \<Rightarrow> ((build_user_response (Some user), 200), s)
                   | LocalFailed error_message error_status \<Rightarrow>
                       if truthy firebase_message \<and> truthy_status firebase_status
                          \<and> the firebase_status \<ge> 500
                       then ((Message False (the firebase_message), the firebase_status), s)
                       else if error_status = 401 \<and> truthy firebase_message
                               \<and> firebase_status = Some 401
                       then ((Message False (the firebase_message), error_status), s)
                       else ((Message False error_message, error_status), s)))"

section \<open>Example worlds and states\<close>

text \<open>
  A world in which every outside service answers favourably: the mail is delivered,
  Firebase signs the user in and creates accounts, the six draws are 1 to 6 and
  the clock reads 1000. The hash is a stand-in that only tags the password.
\<close>

definition world_ok :: world where
  "world_ok =
     \<lparr>FIREBASE_WEB_API_KEY = Some ''AIzaKey'', ADMIN_EMAIL_env = None,
      sha256_hexdigest = (\<lambda>p. ''sha256:'' @ p), time_now = 1000,
      randint = (\<lambda>i. i + 1),
      smtp_delivers = (\<lambda>e c n. True),
      signInWithPassword = (\<lambda>e p. HttpResponse 200 None (Some ''uid-1'')),
      create_user = (\<lambda>e p n. Created ''uid-1''),
      get_user = (\<lambda>u. UserNotFoundError)\<rparr>"

definition state_empty :: state where
  "state_empty = \<lparr>users = [], users_seq = 0, verification_codes = Map.empty\<rparr>"

definition ticket_bob :: ticket where
  "ticket_bob =
     \<lparr>code = ''123456'', expires_at = 1600, name = ''Bob'', password = ''pw'',
      phone = ''555''\<rparr>"

text \<open>One ticket is outstanding, for \<^verbatim>\<open>bob@x.com\<close>, and nobody is registered.\<close>

definition state_pending :: state where
  "state_pending =
     \<lparr>users = [], users_seq = 0, verification_codes = [''bob@x.com'' \<mapsto> ticket_bob]\<rparr>"

text \<open>The same world ten seconds later, with other draws: the code is 987654.\<close>

definition world_later :: world where
  "world_later = world_ok\<lparr>time_now := 1010, randint := (\<lambda>i. 9 - i)\<rparr>"

text \<open>A world in which the mail server refuses the message.\<close>

definition world_no_mail :: world where
  "world_no_mail = world_ok\<lparr>smtp_delivers := (\<lambda>e c n. False)\<rparr>"

text \<open>A world in which the request to Firebase times out.\<close>

definition world_down :: world where
  "world_down = world_ok\<lparr>signInWithPassword := (\<lambda>e p. RequestException)\<rparr>"

section \<open>Basic facts\<close>

subsection \<open>The users table\<close>

lemma fetch_local_user_None:
  "fetch_local_user s e = None \<longleftrightarrow> e \<notin> set (map row_email (users s))"
  by (auto simp: fetch_local_user_def find_None_iff)

lemma filter_absent_email:
  "fetch_local_user s e = None \<Longrightarrow> filter (\<lambda>u. row_email u = e) (users s) = []"
  by (auto simp: fetch_local_user_def find_None_iff filter_empty_conv)

lemma insert_user_fresh:
  "fetch_local_user s e = None \<Longrightarrow>
   insert_user s n e pw ph =
     Some (s\<lparr>users := users s @ [\<lparr>row_id = next_rowid s, row_name = n, row_email = e,
                                   row_password = pw, row_phone = Some ph\<rparr>],
             users_seq := next_rowid s\<rparr>, next_rowid s)"
  by (simp add: insert_user_def fetch_local_user_None Let_def)

lemma find_absent_snoc:
  "find P xs = None \<Longrightarrow> find P (xs @ [r]) = (if P r then Some r else None)"
  by (induction xs) (auto split: if_splits)

lemma fetch_after_append:
  "fetch_local_user s e = None \<Longrightarrow>
   fetch_local_user (s\<lparr>users := users s @ [r], users_seq := i\<rparr>) e =
     (if row_email r = e then Some r else None)"
  by (simp add: fetch_local_user_def find_absent_snoc)

lemma fetch_local_user_pop_code [simp]:
  "fetch_local_user (pop_code s k) e = fetch_local_user s e"
  by (simp add: fetch_local_user_def pop_code_def)

lemma verification_codes_pop_code [simp]:
  "verification_codes (pop_code s k) = (verification_codes s)(k := None)"
  by (simp add: pop_code_def)

subsection \<open>The generated code\<close>

lemma generate_verification_code_length: "length (generate_verification_code w) = 6"
  by (simp add: generate_verification_code_def digit_str_def)

lemma generate_verification_code_nonempty: "generate_verification_code w \<noteq> []"
  using generate_verification_code_length [of w] by auto

subsection \<open>The two successful paths of registration\<close>

lemma send_verification_sent:
  assumes "nm \<noteq> []" and "email \<noteq> []" and "pw \<noteq> []" and "ph \<noteq> []"
    and "fetch_local_user s email = None"
    and "lower email \<noteq> lower (ADMIN_EMAIL w)"
    and "send_verification_email w email (generate_verification_code w) nm"
  shows "send_verification w s nm email pw ph =
           (CodeSent,
            s\<lparr>verification_codes := (verification_codes s)(lower email \<mapsto>
                 \<lparr>code = generate_verification_code w,
                  expires_at = time_now w + VERIFICATION_CODE_EXPIRY,
                  name = nm, password = pw, phone = ph\<rparr>)\<rparr>)"
  using assms by (simp add: send_verification_def Let_def)

lemma register_user_success:
  assumes "name t \<noteq> []" and "email \<noteq> []" and "password t \<noteq> []" and "phone t \<noteq> []"
    and "code t \<noteq> []"
    and "fetch_local_user s email = None"
    and "verification_codes s (lower email) = Some t"
    and "time_now w \<le> expires_at t"
    and "create_user w email (password t) (strip (name t)) = Created uid"
  shows "register_user w s (name t) email (password t) (phone t) (code t) =
           ((UserBody \<lparr>view_id = next_rowid s, view_name = name t, view_email = email,
                        view_phone = phone t\<rparr>, 200),
            pop_code (s\<lparr>users := users s @
                          [\<lparr>row_id = next_rowid s, row_name = name t, row_email = email,
                            row_password = hash_password w (password t),
                            row_phone = Some (phone t)\<rparr>],
                        users_seq := next_rowid s\<rparr>) (lower email))"
  using assms by (simp add: register_user_def insert_user_fresh)

subsection \<open>The remote path of login\<close>

lemma sign_in_failure_status:
  "sign_in_with_firebase w email pw = SignInFailed m st \<Longrightarrow> 500 \<le> st \<Longrightarrow>
   st = 503 \<and> m = ''Authentication service is unreachable. Please try again shortly.''"
  by (auto simp: sign_in_with_firebase_def split: http_reply.splits if_splits)

lemma authenticate_locally_status:
  "authenticate_locally w s email pw = LocalFailed lm lst \<Longrightarrow>
   (lm, lst) = InvalidCredentials"
  by (auto simp: authenticate_locally_def InvalidCredentials_def split: option.splits if_splits)

lemma ensure_existing:
  "fetch_local_user s email = Some u \<Longrightarrow>
   ensure_local_user_record w s email pw uid = Some (Some u, s)"
  by (simp add: ensure_local_user_record_def)

lemma ensure_fresh:
  assumes "fetch_local_user s email = None"
  shows "ensure_local_user_record w s email pw uid =
     Some (Some \<lparr>row_id = next_rowid s, row_name = fst (new_record_fields w email uid),
                  row_email = email, row_password = hash_password w pw,
                  row_phone = Some (snd (new_record_fields w email uid))\<rparr>,
           s\<lparr>users := users s @
                [\<lparr>row_id = next_rowid s, row_name = fst (new_record_fields w email uid),
                  row_email = email, row_password = hash_password w pw,
                  row_phone = Some (snd (new_record_fields w email uid))\<rparr>],
              users_seq := next_rowid s\<rparr>)"
  using assms
  by (simp add: ensure_local_user_record_def insert_user_fresh fetch_after_append)

lemma ensure_result:
  assumes "ensure_local_user_record w s email pw uid = Some (user, s')"
  shows "user \<noteq> None"
proof (cases "fetch_local_user s email")
  case None
  from ensure_fresh [OF None, of w pw uid] assms show ?thesis by auto
next
  case (Some u)
  from ensure_existing [OF Some, of w pw uid] assms show ?thesis by auto
qed

lemma new_record_fields_default:
  assumes "\<not> truthy uid \<or> get_user w (the uid) = UserNotFoundError
           \<or> get_user w (the uid) = ProfileException
           \<or> (\<exists>dn pn. get_user w (the uid) = Profile dn pn \<and> \<not> truthy dn \<and> \<not> truthy pn)"
  shows "new_record_fields w email uid = (local_part email, [])"
  using assms
  by (cases uid) (auto simp: new_record_fields_def Let_def)

lemma login_remote_success:
  assumes "email \<noteq> []" and "pw \<noteq> []"
    and "truthy (FIREBASE_WEB_API_KEY w)"
    and "sign_in_with_firebase w email pw = SignInOk uid"
  shows "login_user w s email pw =
          (case ensure_local_user_record w s email pw uid of
             None \<Rightarrow> ((InternalServerError, 500), s)
           | Some (user, s') \<Rightarrow> ((build_user_response user, 200), s'))"
  using assms by (simp add: login_user_def)

lemma login_without_remote_success:
  assumes "\<not> (email \<noteq> [] \<and> pw \<noteq> [] \<and> truthy (FIREBASE_WEB_API_KEY w)
              \<and> (\<exists>uid. sign_in_with_firebase w email pw = SignInOk uid))"
  shows "snd (login_user w s email pw) = s"
  using assms
  by (auto simp: login_user_def Let_def
      split: option.splits sign_in_result.splits local_result.splits)

lemma login_existing_state:
  assumes "fetch_local_user s email = Some u"
  shows "snd (login_user w s email pw) = s"
proof (cases "email \<noteq> [] \<and> pw \<noteq> [] \<and> truthy (FIREBASE_WEB_API_KEY w)
              \<and> (\<exists>uid. sign_in_with_firebase w email pw = SignInOk uid)")
  case True
  then obtain uid where "sign_in_with_firebase w email pw = SignInOk uid" by blast
  with True login_remote_success [of email pw w uid s] ensure_existing [OF assms, of w pw uid]
  show ?thesis by simp
next
  case False
  then show ?thesis by (rule login_without_remote_success)
qed

lemma succeeded_build_user_response:
  "succeeded (build_user_response (Some u), st)"
  by (simp add: build_user_response_def)

subsection \<open>The example worlds and states\<close>

lemma lower_bob: "lower ''bob@x.com'' = ''bob@x.com''"
  by (simp add: lower_def lower_char_def)

lemma lower_admin: "lower ''admin@shophub.com'' = ''admin@shophub.com''"
  by (simp add: lower_def lower_char_def)

lemma admin_world_ok: "ADMIN_EMAIL world_ok = ''admin@shophub.com''"
  by (simp add: ADMIN_EMAIL_def world_ok_def)

lemma bob_not_reserved: "lower ''bob@x.com'' \<noteq> lower (ADMIN_EMAIL world_ok)"
  by (simp add: lower_bob lower_admin admin_world_ok)

lemma code_world_ok: "generate_verification_code world_ok = ''123456''"
  by code_simp

lemma code_world_later: "generate_verification_code world_later = ''987654''"
  by code_simp

lemma next_rowid_empty: "next_rowid state_empty = 1"
  by (simp add: next_rowid_def state_empty_def)

lemma next_rowid_pending: "next_rowid state_pending = 1"
  by (simp add: next_rowid_def state_pending_def)

lemma fetch_empty: "fetch_local_user state_empty e = None"
  by (simp add: fetch_local_user_def state_empty_def)

lemma fetch_pending: "fetch_local_user state_pending e = None"
  by (simp add: fetch_local_user_def state_pending_def)

lemma stored_bob: "verification_codes state_pending (lower ''bob@x.com'') = Some ticket_bob"
  by (simp add: lower_bob state_pending_def)

lemma sent_bob:
  "send_verification world_ok state_empty ''Bob'' ''bob@x.com'' ''pw'' ''555''
     = (CodeSent, state_pending)"
proof -
  have "send_verification_email world_ok ''bob@x.com'' ''123456'' ''Bob''"
    by (simp add: send_verification_email_def world_ok_def)
  moreover have "time_now world_ok + VERIFICATION_CODE_EXPIRY = 1600"
    by (simp add: world_ok_def VERIFICATION_CODE_EXPIRY_def)
  moreover have "state_empty\<lparr>verification_codes :=
      (verification_codes state_empty)(''bob@x.com'' \<mapsto> ticket_bob)\<rparr> = state_pending"
    by (simp add: state_empty_def state_pending_def)
  ultimately show ?thesis
    by (simp add: send_verification_def fetch_empty lower_bob lower_admin admin_world_ok
        code_world_ok flip: ticket_bob_def)
qed

section \<open>Requesting a verification code\<close>

text \<open>
  Claim C1, as amended. Take an email that is not in the users table and is not,
  ignoring case, the reserved administrator address, and a request whose four
  fields are present. When the mail is delivered, the redemption follows within
  the 600 seconds with the stored code and the same name, password and phone, and
  Firebase creates the account, then the request answers "code sent", the
  redemption answers with the new user, exactly one row of the users table has
  that email afterwards, carrying the submitted name, email and phone and the hash
  of the password, and the ticket is gone.
\<close>

theorem verify_then_register:
  assumes "nm \<noteq> []" and "email \<noteq> []" and "pw \<noteq> []" and "ph \<noteq> []"
    and "fetch_local_user s email = None"
    and "lower email \<noteq> lower (ADMIN_EMAIL w)"
    and "send_verification_email w email (generate_verification_code w) nm"
    and "time_now w2 \<le> time_now w + VERIFICATION_CODE_EXPIRY"
    and "create_user w2 email pw (strip nm) = Created uid"
  shows "fst (send_verification w s nm email pw ph) = CodeSent
       \<and> map_option code (verification_codes (snd (send_verification w s nm email pw ph))
            (lower email)) = Some (generate_verification_code w)
       \<and> fst (register_user w2 (snd (send_verification w s nm email pw ph))
               nm email pw ph (generate_verification_code w))
           = (UserBody \<lparr>view_id = next_rowid s, view_name = nm, view_email = email,
                        view_phone = ph\<rparr>, 200)
       \<and> filter (\<lambda>u. row_email u = email)
            (users (snd (register_user w2 (snd (send_verification w s nm email pw ph))
               nm email pw ph (generate_verification_code w))))
           = [\<lparr>row_id = next_rowid s, row_name = nm, row_email = email,
               row_password = hash_password w2 pw, row_phone = Some ph\<rparr>]
       \<and> verification_codes (snd (register_user w2 (snd (send_verification w s nm email pw ph))
               nm email pw ph (generate_verification_code w))) (lower email) = None"
proof -
  define t where "t = \<lparr>code = generate_verification_code w,
                  expires_at = time_now w + VERIFICATION_CODE_EXPIRY,
                  name = nm, password = pw, phone = ph\<rparr>"
  define s1 where "s1 = s\<lparr>verification_codes := (verification_codes s)(lower email \<mapsto> t)\<rparr>"
  have sent: "send_verification w s nm email pw ph = (CodeSent, s1)"
    using send_verification_sent [OF assms(1-7)] by (simp add: s1_def t_def)
  have absent: "fetch_local_user s1 email = None"
    using assms(5) by (simp add: s1_def fetch_local_user_def)
  have stored: "verification_codes s1 (lower email) = Some t"
    by (simp add: s1_def)
  have fresh: "next_rowid s1 = next_rowid s" "users s1 = users s"
    by (simp_all add: s1_def next_rowid_def)
  have reg: "register_user w2 s1 (name t) email (password t) (phone t) (code t) =
           ((UserBody \<lparr>view_id = next_rowid s1, view_name = name t, view_email = email,
                        view_phone = phone t\<rparr>, 200),
            pop_code (s1\<lparr>users := users s1 @
                          [\<lparr>row_id = next_rowid s1, row_name = name t, row_email = email,
                            row_password = hash_password w2 (password t),
                            row_phone = Some (phone t)\<rparr>],
                        users_seq := next_rowid s1\<rparr>) (lower email))"
    by (rule register_user_success [OF _ assms(2) _ _ _ absent stored, of w2 uid])
       (use assms generate_verification_code_nonempty in \<open>simp_all add: t_def\<close>)
  have none: "filter (\<lambda>u. row_email u = email) (users s) = []"
    using assms(5) by (rule filter_absent_email)
  show ?thesis
    using reg by (simp add: sent stored fresh none t_def pop_code_def)
qed

theorem verify_then_register_witness:
  "fetch_local_user state_empty ''bob@x.com'' = None
   \<and> lower ''bob@x.com'' \<noteq> lower (ADMIN_EMAIL world_ok)
   \<and> fst (send_verification world_ok state_empty ''Bob'' ''bob@x.com'' ''pw'' ''555'') = CodeSent
   \<and> fst (register_user world_later
          (snd (send_verification world_ok state_empty ''Bob'' ''bob@x.com'' ''pw'' ''555''))
          ''Bob'' ''bob@x.com'' ''pw'' ''555'' ''123456'')
       = (UserBody \<lparr>view_id = 1, view_name = ''Bob'', view_email = ''bob@x.com'',
                    view_phone = ''555''\<rparr>, 200)
   \<and> filter (\<lambda>u. row_email u = ''bob@x.com'')
        (users (snd (register_user world_later
          (snd (send_verification world_ok state_empty ''Bob'' ''bob@x.com'' ''pw'' ''555''))
          ''Bob'' ''bob@x.com'' ''pw'' ''555'' ''123456'')))
       = [\<lparr>row_id = 1, row_name = ''Bob'', row_email = ''bob@x.com'',
           row_password = ''sha256:pw'', row_phone = Some ''555''\<rparr>]"
proof -
  have absent: "fetch_local_user state_empty ''bob@x.com'' = None"
    by (rule fetch_empty)
  have mail: "send_verification_email world_ok ''bob@x.com''
      (generate_verification_code world_ok) ''Bob''"
    by (simp add: send_verification_email_def world_ok_def)
  have soon: "time_now world_later \<le> time_now world_ok + VERIFICATION_CODE_EXPIRY"
    by (simp add: world_later_def world_ok_def VERIFICATION_CODE_EXPIRY_def)
  have made: "create_user world_later ''bob@x.com'' ''pw'' (strip ''Bob'') = Created ''uid-1''"
    by (simp add: world_later_def world_ok_def)
  have hash: "hash_password world_later ''pw'' = ''sha256:pw''"
    by (simp add: hash_password_def world_later_def world_ok_def)
  show ?thesis
    using absent bob_not_reserved
      verify_then_register [OF _ _ _ _ absent bob_not_reserved mail soon made,
        where ph = "''555''"]
    by (simp add: code_world_ok next_rowid_empty hash)
qed

text \<open>
  The claim as it stands takes every email that is not in the users table. The
  reserved address \<^verbatim>\<open>admin@shophub.com\<close> is such an email in the empty table, and there
  the request is refused, no ticket is stored, the redemption finds no code and no
  row is written.
\<close>

theorem verify_reserved_email_counterexample:
  "fetch_local_user state_empty ''admin@shophub.com'' = None
   \<and> send_verification world_ok state_empty ''Ann'' ''admin@shophub.com'' ''pw'' ''555''
       = (ReservedEmail, state_empty)
   \<and> \<not> succeeded ReservedEmail
   \<and> verification_codes state_empty (lower ''admin@shophub.com'') = None
   \<and> register_user world_ok state_empty ''Ann'' ''admin@shophub.com'' ''pw'' ''555'' ''123456''
       = (CodeNotFound, state_empty)
   \<and> \<not> succeeded CodeNotFound
   \<and> filter (\<lambda>u. row_email u = ''admin@shophub.com'') (users state_empty) = []"
proof -
  have request: "send_verification world_ok state_empty ''Ann'' ''admin@shophub.com'' ''pw''
      ''555'' = (ReservedEmail, state_empty)"
    by (simp add: send_verification_def fetch_empty lower_admin admin_world_ok)
  have no_ticket: "verification_codes state_empty (lower ''admin@shophub.com'') = None"
    by (simp add: state_empty_def)
  have redeem: "register_user world_ok state_empty ''Ann'' ''admin@shophub.com'' ''pw'' ''555''
      ''123456'' = (CodeNotFound, state_empty)"
    by (simp add: register_user_def fetch_empty no_ticket)
  have failures: "\<not> succeeded ReservedEmail" "\<not> succeeded CodeNotFound"
    by (simp_all add: ReservedEmail_def CodeNotFound_def)
  have no_record: "filter (\<lambda>u. row_email u = ''admin@shophub.com'') (users state_empty) = []"
    by (simp add: state_empty_def)
  from request no_ticket redeem failures no_record fetch_empty show ?thesis
    by blast
qed

text \<open>
  Claim C5, as amended. When a request passes its checks and the mail is not
  delivered, the ticket it has just stored is removed, so that no ticket is left
  for the email, and the answer is \<open>DeliveryFailed\<close>, whose status is 500.
\<close>

theorem delivery_failure_rolls_back:
  assumes "nm \<noteq> []" and "email \<noteq> []" and "pw \<noteq> []" and "ph \<noteq> []"
    and "fetch_local_user s email = None"
    and "lower email \<noteq> lower (ADMIN_EMAIL w)"
    and "\<not> send_verification_email w email (generate_verification_code w) nm"
  shows "send_verification w s nm email pw ph = (DeliveryFailed, pop_code s (lower email))
       \<and> verification_codes (pop_code s (lower email)) (lower email) = None
       \<and> snd DeliveryFailed = 500"
  using assms by (simp add: send_verification_def Let_def pop_code_def DeliveryFailed_def)

theorem delivery_failure_rolls_back_witness:
  "\<not> send_verification_email world_no_mail ''bob@x.com''
        (generate_verification_code world_no_mail) ''Bob''
   \<and> send_verification world_no_mail state_pending ''Bob'' ''bob@x.com'' ''pw'' ''555''
       = (DeliveryFailed, state_empty)
   \<and> verification_codes state_empty ''bob@x.com'' = None"
proof -
  have refused: "\<not> send_verification_email world_no_mail ''bob@x.com''
        (generate_verification_code world_no_mail) ''Bob''"
    by (simp add: send_verification_email_def world_no_mail_def)
  have free: "lower ''bob@x.com'' \<noteq> lower (ADMIN_EMAIL world_no_mail)"
    by (simp add: lower_bob lower_admin ADMIN_EMAIL_def world_no_mail_def world_ok_def)
  have popped: "pop_code state_pending ''bob@x.com'' = state_empty"
    by (simp add: pop_code_def state_pending_def state_empty_def)
  show ?thesis
    using refused
      delivery_failure_rolls_back [OF _ _ _ _ fetch_pending free refused,
        where pw = "''pw''" and ph = "''555''"]
    by (simp add: lower_bob popped)
qed

text \<open>
  The status of that answer is 500, which is not a status of the 400 class.
\<close>

theorem delivery_failure_status_counterexample:
  "send_verification world_no_mail state_empty ''Bob'' ''bob@x.com'' ''pw'' ''555''
     = ((Message False ''Failed to send verification email. Please try again.'', 500),
        state_empty)
   \<and> \<not> (400 \<le> snd (fst (send_verification world_no_mail state_empty
                ''Bob'' ''bob@x.com'' ''pw'' ''555''))
        \<and> snd (fst (send_verification world_no_mail state_empty
                ''Bob'' ''bob@x.com'' ''pw'' ''555'')) < 500)"
proof -
  have refused: "\<not> send_verification_email world_no_mail ''bob@x.com'' c ''Bob''" for c
    by (simp add: send_verification_email_def world_no_mail_def)
  have free: "lower ''bob@x.com'' \<noteq> lower (ADMIN_EMAIL world_no_mail)"
    by (simp add: lower_bob lower_admin ADMIN_EMAIL_def world_no_mail_def world_ok_def)
  have popped: "pop_code (state_empty\<lparr>verification_codes :=
      (verification_codes state_empty)(''bob@x.com'' \<mapsto> t)\<rparr>) ''bob@x.com'' = state_empty" for t
    by (simp add: pop_code_def state_empty_def)
  have "send_verification world_no_mail state_empty ''Bob'' ''bob@x.com'' ''pw'' ''555''
     = ((Message False ''Failed to send verification email. Please try again.'', 500),
        state_empty)"
    using free by (simp add: send_verification_def fetch_empty refused lower_bob popped
        DeliveryFailed_def)
  then show ?thesis by simp
qed

text \<open>
  Claim C6, as amended. The table is a dictionary keyed by the lower-cased email,
  so it holds one ticket per key. When a ticket is outstanding for an email and a
  second request for it is sent, the entry becomes the ticket of the second request
  (its code, its expiry, its name, password and phone) and every other entry stays.
  A redemption before the new expiry that presents the code of the first ticket
  answers \<open>CodeMismatch\<close> and changes nothing, provided the second code drawn differs
  from the first.
\<close>

theorem second_request_replaces_ticket:
  assumes "verification_codes s (lower email) = Some t1"
    and "nm \<noteq> []" and "email \<noteq> []" and "pw \<noteq> []" and "ph \<noteq> []"
    and "fetch_local_user s email = None"
    and "lower email \<noteq> lower (ADMIN_EMAIL w)"
    and "send_verification_email w email (generate_verification_code w) nm"
    and "nm3 \<noteq> []" and "pw3 \<noteq> []" and "ph3 \<noteq> []" and "code t1 \<noteq> []"
    and "time_now w3 \<le> time_now w + VERIFICATION_CODE_EXPIRY"
    and "code t1 \<noteq> generate_verification_code w"
  shows "send_verification w s nm email pw ph =
           (CodeSent,
            s\<lparr>verification_codes := (verification_codes s)(lower email \<mapsto>
                 \<lparr>code = generate_verification_code w,
                  expires_at = time_now w + VERIFICATION_CODE_EXPIRY,
                  name = nm, password = pw, phone = ph\<rparr>)\<rparr>)
       \<and> register_user w3 (snd (send_verification w s nm email pw ph)) nm3 email pw3 ph3 (code t1)
           = (CodeMismatch, snd (send_verification w s nm email pw ph))"
proof -
  note sent = send_verification_sent [OF assms(2-8)]
  have absent: "fetch_local_user (snd (send_verification w s nm email pw ph)) email = None"
    using assms(6) by (simp add: sent fetch_local_user_def)
  have "register_user w3 (snd (send_verification w s nm email pw ph)) nm3 email pw3 ph3 (code t1)
           = (CodeMismatch, snd (send_verification w s nm email pw ph))"
    unfolding register_user_def using absent assms by (simp add: sent)
  with sent show ?thesis by simp
qed

theorem second_request_replaces_ticket_witness:
  "verification_codes state_pending (lower ''bob@x.com'') = Some ticket_bob
   \<and> code ticket_bob \<noteq> generate_verification_code world_later
   \<and> verification_codes
        (snd (send_verification world_later state_pending ''Rob'' ''bob@x.com'' ''pw2'' ''777''))
        ''bob@x.com''
       = Some \<lparr>code = ''987654'', expires_at = 1610, name = ''Rob'', password = ''pw2'',
               phone = ''777''\<rparr>
   \<and> fst (register_user world_later
          (snd (send_verification world_later state_pending ''Rob'' ''bob@x.com'' ''pw2'' ''777''))
          ''Bob'' ''bob@x.com'' ''pw'' ''555'' ''123456'') = CodeMismatch"
proof -
  have free: "lower ''bob@x.com'' \<noteq> lower (ADMIN_EMAIL world_later)"
    by (simp add: lower_bob lower_admin ADMIN_EMAIL_def world_later_def world_ok_def)
  have mail: "send_verification_email world_later ''bob@x.com''
      (generate_verification_code world_later) ''Rob''"
    by (simp add: send_verification_email_def world_later_def world_ok_def)
  have differs: "code ticket_bob \<noteq> generate_verification_code world_later"
    by (simp add: code_world_later ticket_bob_def)
  have old_code: "code ticket_bob = ''123456''" "code ticket_bob \<noteq> []"
    by (simp_all add: ticket_bob_def)
  have soon: "time_now world_later \<le> time_now world_later + VERIFICATION_CODE_EXPIRY"
    by (simp add: VERIFICATION_CODE_EXPIRY_def)
  have expiry: "time_now world_later + VERIFICATION_CODE_EXPIRY = 1610"
    by (simp add: world_later_def world_ok_def VERIFICATION_CODE_EXPIRY_def)
  note replaced =
      second_request_replaces_ticket [OF stored_bob _ _ _ _ fetch_pending free mail _ _ _
        old_code(2) soon differs, where pw = "''pw2''" and ph = "''777''"
        and ?nm3.0 = "''Bob''" and ?pw3.0 = "''pw''" and ?ph3.0 = "''555''"]
  from replaced have entry: "verification_codes
        (snd (send_verification world_later state_pending ''Rob'' ''bob@x.com'' ''pw2'' ''777''))
        ''bob@x.com''
       = Some \<lparr>code = ''987654'', expires_at = 1610, name = ''Rob'', password = ''pw2'',
               phone = ''777''\<rparr>"
    by (simp add: lower_bob code_world_later expiry)
  from replaced [THEN conjunct2] have redeem: "fst (register_user world_later
          (snd (send_verification world_later state_pending ''Rob'' ''bob@x.com'' ''pw2'' ''777''))
          ''Bob'' ''bob@x.com'' ''pw'' ''555'' ''123456'') = CodeMismatch"
    by (simp add: old_code(1))
  from stored_bob differs entry redeem show ?thesis
    by blast
qed

text \<open>
  The draws of the second request can repeat those of the first. Then the code of
  the first ticket is the code of the second one too, and a redemption that
  presents it with the data of the second request registers the user.
\<close>

theorem repeated_code_counterexample:
  "send_verification world_ok state_empty ''Bob'' ''bob@x.com'' ''pw'' ''555''
     = (CodeSent, state_pending)
   \<and> verification_codes state_pending ''bob@x.com'' = Some ticket_bob
   \<and> code ticket_bob = ''123456''
   \<and> fst (send_verification (world_ok\<lparr>time_now := 1010\<rparr>) state_pending
          ''Rob'' ''bob@x.com'' ''pw2'' ''777'') = CodeSent
   \<and> fst (register_user (world_ok\<lparr>time_now := 1020\<rparr>)
          (snd (send_verification (world_ok\<lparr>time_now := 1010\<rparr>) state_pending
                  ''Rob'' ''bob@x.com'' ''pw2'' ''777''))
          ''Rob'' ''bob@x.com'' ''pw2'' ''777'' ''123456'')
       = (UserBody \<lparr>view_id = 1, view_name = ''Rob'', view_email = ''bob@x.com'',
                    view_phone = ''777''\<rparr>, 200)
   \<and> (UserBody \<lparr>view_id = 1, view_name = ''Rob'', view_email = ''bob@x.com'',
                 view_phone = ''777''\<rparr>, 200) \<noteq> CodeMismatch"
proof -
  define w2 where "w2 = world_ok\<lparr>time_now := 1010\<rparr>"
  define w3 where "w3 = world_ok\<lparr>time_now := 1020\<rparr>"
  define t2 where "t2 = \<lparr>code = ''123456'', expires_at = 1610, name = ''Rob'',
      password = ''pw2'', phone = ''777''\<rparr>"
  define s2 where "s2 = state_pending\<lparr>verification_codes :=
      (verification_codes state_pending)(''bob@x.com'' \<mapsto> t2)\<rparr>"
  have code2: "generate_verification_code w2 = ''123456''"
    unfolding w2_def by code_simp
  have free: "lower ''bob@x.com'' \<noteq> lower (ADMIN_EMAIL w2)"
    by (simp add: lower_bob lower_admin ADMIN_EMAIL_def w2_def world_ok_def)
  have mail: "send_verification_email w2 ''bob@x.com'' (generate_verification_code w2) ''Rob''"
    by (simp add: send_verification_email_def w2_def world_ok_def)
  have expiry: "time_now w2 + VERIFICATION_CODE_EXPIRY = 1610"
    by (simp add: w2_def VERIFICATION_CODE_EXPIRY_def)
  have second: "send_verification w2 state_pending ''Rob'' ''bob@x.com'' ''pw2'' ''777''
      = (CodeSent, s2)"
    using send_verification_sent [OF _ _ _ _ fetch_pending free mail,
        where pw = "''pw2''" and ph = "''777''"]
    by (simp add: lower_bob code2 expiry s2_def t2_def)
  have absent: "fetch_local_user s2 ''bob@x.com'' = None"
    by (simp add: s2_def fetch_local_user_def state_pending_def)
  have stored: "verification_codes s2 (lower ''bob@x.com'') = Some t2"
    by (simp add: s2_def lower_bob)
  have soon: "time_now w3 \<le> expires_at t2"
    by (simp add: w3_def t2_def)
  have made: "create_user w3 ''bob@x.com'' (password t2) (strip (name t2)) = Created ''uid-1''"
    by (simp add: w3_def world_ok_def)
  have rowid: "next_rowid s2 = 1"
    by (simp add: next_rowid_def s2_def state_pending_def)
  have redeem: "fst (register_user w3 s2 ''Rob'' ''bob@x.com'' ''pw2'' ''777'' ''123456'')
       = (UserBody \<lparr>view_id = 1, view_name = ''Rob'', view_email = ''bob@x.com'',
                    view_phone = ''777''\<rparr>, 200)"
    using register_user_success [OF _ _ _ _ _ absent stored soon made]
    by (simp add: t2_def rowid)
  have other: "(UserBody \<lparr>view_id = 1, view_name = ''Rob'', view_email = ''bob@x.com'',
                 view_phone = ''777''\<rparr>, 200) \<noteq> CodeMismatch"
    by (simp add: CodeMismatch_def)
  have first_code: "code ticket_bob = ''123456''"
    by (simp add: ticket_bob_def)
  have kept: "verification_codes state_pending ''bob@x.com'' = Some ticket_bob"
    by (simp add: state_pending_def)
  show ?thesis
    using sent_bob kept first_code second redeem other
    by (simp add: w2_def w3_def)
qed

text \<open>
  Claim C7, as amended. A request with the reserved administrator address, in any
  mix of upper and lower case and with its four fields present, is refused with
  status 400 and changes nothing, whatever the users table holds: with
  \<open>ReservedEmail\<close> when the users table has no row with that very email, and with
  \<open>AlreadyRegistered\<close> when it has one, because that check comes first.
\<close>

theorem reserved_email_rejected:
  assumes "nm \<noteq> []" and "email \<noteq> []" and "pw \<noteq> []" and "ph \<noteq> []"
    and "lower email = lower (ADMIN_EMAIL w)"
  shows "send_verification w s nm email pw ph =
           ((if fetch_local_user s email = None then ReservedEmail else AlreadyRegistered), s)
       \<and> snd ReservedEmail = 400 \<and> snd AlreadyRegistered = 400"
  using assms by (simp add: send_verification_def ReservedEmail_def AlreadyRegistered_def)

theorem reserved_email_rejected_witness:
  "lower ''Admin@ShopHub.com'' = lower (ADMIN_EMAIL world_ok)
   \<and> send_verification world_ok state_pending ''Ann'' ''Admin@ShopHub.com'' ''pw'' ''555''
       = (ReservedEmail, state_pending)"
proof -
  have same: "lower ''Admin@ShopHub.com'' = lower (ADMIN_EMAIL world_ok)"
    unfolding admin_world_ok by code_simp
  show ?thesis
    using same
      reserved_email_rejected [OF _ _ _ _ same, of "''Ann''" "''pw''" "''555''" state_pending]
    by (simp add: fetch_pending)
qed

text \<open>
  The outcome does depend on the users table. A login that Firebase accepts for the
  administrator address writes a row for it; after that the request for the same
  address answers \<open>AlreadyRegistered\<close>, not \<open>ReservedEmail\<close>.
\<close>

theorem reserved_email_registered_counterexample:
  "lower ''admin@shophub.com'' = lower (ADMIN_EMAIL world_ok)
   \<and> fst (send_verification world_ok
          (snd (login_user world_ok state_empty ''admin@shophub.com'' ''pw''))
          ''Ann'' ''admin@shophub.com'' ''pw'' ''555'') = AlreadyRegistered
   \<and> AlreadyRegistered \<noteq> ReservedEmail"
proof -
  define r where "r = \<lparr>row_id = next_rowid state_empty,
      row_name = fst (new_record_fields world_ok ''admin@shophub.com'' (Some ''uid-1'')),
      row_email = ''admin@shophub.com'', row_password = hash_password world_ok ''pw'',
      row_phone = Some (snd (new_record_fields world_ok ''admin@shophub.com'' (Some ''uid-1'')))\<rparr>"
  define s1 where "s1 = state_empty\<lparr>users := users state_empty @ [r],
      users_seq := next_rowid state_empty\<rparr>"
  have key: "truthy (FIREBASE_WEB_API_KEY world_ok)"
    by (simp add: world_ok_def)
  have signed_in: "sign_in_with_firebase world_ok ''admin@shophub.com'' ''pw''
      = SignInOk (Some ''uid-1'')"
    by (simp add: sign_in_with_firebase_def world_ok_def)
  have login: "snd (login_user world_ok state_empty ''admin@shophub.com'' ''pw'') = s1"
    using login_remote_success [OF _ _ key signed_in, of state_empty]
      ensure_fresh [OF fetch_empty, of world_ok "''admin@shophub.com''" "''pw''" "Some ''uid-1''"]
    by (simp add: s1_def r_def)
  have present: "fetch_local_user s1 ''admin@shophub.com'' = Some r"
    using fetch_after_append [OF fetch_empty, where r = r and e = "''admin@shophub.com''"
        and i = "next_rowid state_empty"]
    by (simp add: s1_def r_def)
  have refused: "fst (send_verification world_ok s1 ''Ann'' ''admin@shophub.com'' ''pw'' ''555'')
      = AlreadyRegistered"
    by (simp add: send_verification_def present)
  have other: "AlreadyRegistered \<noteq> ReservedEmail"
    by (simp add: AlreadyRegistered_def ReservedEmail_def)
  have same: "lower ''admin@shophub.com'' = lower (ADMIN_EMAIL world_ok)"
    by (simp add: admin_world_ok)
  from same refused other show ?thesis
    by (simp add: login)
qed

section \<open>Redeeming a code\<close>

text \<open>
  Claim C3. For an outstanding ticket that has not expired, a redemption (fields and
  code present, email not registered) whose code differs from the ticket's answers
  \<open>CodeMismatch\<close> and leaves the whole state, the ticket included, as it was. A later
  redemption for the same email, still before the expiry, with the ticket's code
  and its name, password and phone, for which Firebase creates the account, answers
  with the new user, writes the row and removes the ticket.
\<close>

theorem code_mismatch_keeps_ticket:
  assumes "nm \<noteq> []" and "email \<noteq> []" and "pw \<noteq> []" and "ph \<noteq> []" and "c \<noteq> []"
    and "fetch_local_user s email = None"
    and "verification_codes s (lower email) = Some t"
    and "time_now w \<le> expires_at t"
    and "c \<noteq> code t"
    and "name t \<noteq> []" and "password t \<noteq> []" and "phone t \<noteq> []" and "code t \<noteq> []"
    and "time_now w2 \<le> expires_at t"
    and "create_user w2 email (password t) (strip (name t)) = Created uid"
  shows "register_user w s nm email pw ph c = (CodeMismatch, s)
       \<and> register_user w2 s (name t) email (password t) (phone t) (code t) =
           ((UserBody \<lparr>view_id = next_rowid s, view_name = name t, view_email = email,
                        view_phone = phone t\<rparr>, 200),
            pop_code (s\<lparr>users := users s @
                          [\<lparr>row_id = next_rowid s, row_name = name t, row_email = email,
                            row_password = hash_password w2 (password t),
                            row_phone = Some (phone t)\<rparr>],
                        users_seq := next_rowid s\<rparr>) (lower email))"
proof -
  have "register_user w s nm email pw ph c = (CodeMismatch, s)"
    using assms(1-9) by (simp add: register_user_def)
  moreover note register_user_success
    [OF assms(10) assms(2) assms(11,12,13) assms(6,7) assms(14,15)]
  ultimately show ?thesis by simp
qed

theorem code_mismatch_keeps_ticket_witness:
  "verification_codes state_pending (lower ''bob@x.com'') = Some ticket_bob
   \<and> time_now world_later \<le> expires_at ticket_bob
   \<and> ''000000'' \<noteq> code ticket_bob
   \<and> register_user world_ok state_pending ''Bob'' ''bob@x.com'' ''pw'' ''555'' ''000000''
       = (CodeMismatch, state_pending)
   \<and> fst (register_user world_later state_pending ''Bob'' ''bob@x.com'' ''pw'' ''555''
          ''123456'')
       = (UserBody \<lparr>view_id = 1, view_name = ''Bob'', view_email = ''bob@x.com'',
                    view_phone = ''555''\<rparr>, 200)"
proof -
  have fields: "name ticket_bob = ''Bob''" "password ticket_bob = ''pw''"
    "phone ticket_bob = ''555''" "code ticket_bob = ''123456''"
    by (simp_all add: ticket_bob_def)
  have early: "time_now world_ok \<le> expires_at ticket_bob"
    by (simp add: world_ok_def ticket_bob_def)
  have soon: "time_now world_later \<le> expires_at ticket_bob"
    by (simp add: world_later_def ticket_bob_def)
  have wrong: "''000000'' \<noteq> code ticket_bob"
    by (simp add: ticket_bob_def)
  have made: "create_user world_later ''bob@x.com'' (password ticket_bob)
      (strip (name ticket_bob)) = Created ''uid-1''"
    by (simp add: world_later_def world_ok_def)
  note kept = code_mismatch_keeps_ticket [OF _ _ _ _ _ fetch_pending stored_bob early wrong
      _ _ _ _ soon made, where nm = "''Bob''" and pw = "''pw''" and ph = "''555''"]
  from kept have first: "register_user world_ok state_pending ''Bob'' ''bob@x.com'' ''pw''
      ''555'' ''000000'' = (CodeMismatch, state_pending)"
    by (simp add: fields)
  from kept have second: "fst (register_user world_later state_pending ''Bob'' ''bob@x.com''
      ''pw'' ''555'' ''123456'')
       = (UserBody \<lparr>view_id = 1, view_name = ''Bob'', view_email = ''bob@x.com'',
                    view_phone = ''555''\<rparr>, 200)"
    by (simp add: fields next_rowid_pending)
  from stored_bob soon wrong first second show ?thesis
    by blast
qed

text \<open>
  Claim C4. When the ticket of an email has expired (the clock is past its
  \<^verbatim>\<open>expires_at\<close>), a redemption with all fields and a code present, for an email that
  is not registered, answers \<open>CodeExpired\<close> and removes the ticket; any later
  redemption for that email with the same code answers \<open>CodeNotFound\<close> and leaves the
  state as it is.
\<close>

theorem expired_ticket_purged:
  assumes "nm \<noteq> []" and "email \<noteq> []" and "pw \<noteq> []" and "ph \<noteq> []" and "c \<noteq> []"
    and "fetch_local_user s email = None"
    and "verification_codes s (lower email) = Some t"
    and "time_now w > expires_at t"
    and "nm2 \<noteq> []" and "pw2 \<noteq> []" and "ph2 \<noteq> []"
  shows "register_user w s nm email pw ph c = (CodeExpired, pop_code s (lower email))
       \<and> verification_codes (pop_code s (lower email)) (lower email) = None
       \<and> register_user w2 (pop_code s (lower email)) nm2 email pw2 ph2 c
           = (CodeNotFound, pop_code s (lower email))"
proof -
  have first: "register_user w s nm email pw ph c = (CodeExpired, pop_code s (lower email))"
    using assms by (simp add: register_user_def)
  have gone: "verification_codes (pop_code s (lower email)) (lower email) = None"
    by simp
  have second: "register_user w2 (pop_code s (lower email)) nm2 email pw2 ph2 c
           = (CodeNotFound, pop_code s (lower email))"
    using assms by (simp add: register_user_def)
  from first gone second show ?thesis by simp
qed

theorem expired_ticket_purged_witness:
  "fetch_local_user state_pending ''bob@x.com'' = None
   \<and> verification_codes state_pending (lower ''bob@x.com'') = Some ticket_bob
   \<and> time_now (world_ok\<lparr>time_now := 1601\<rparr>) > expires_at ticket_bob
   \<and> register_user (world_ok\<lparr>time_now := 1601\<rparr>) state_pending
        ''Bob'' ''bob@x.com'' ''pw'' ''555'' ''123456''
       = (CodeExpired, pop_code state_pending ''bob@x.com'')
   \<and> register_user world_ok (pop_code state_pending ''bob@x.com'')
        ''Bob'' ''bob@x.com'' ''pw'' ''555'' ''123456''
       = (CodeNotFound, pop_code state_pending ''bob@x.com'')"
proof -
  have late: "time_now (world_ok\<lparr>time_now := 1601\<rparr>) > expires_at ticket_bob"
    by (simp add: ticket_bob_def)
  show ?thesis
    using fetch_pending [of "''bob@x.com''"] stored_bob late
      expired_ticket_purged [OF _ _ _ _ _ fetch_pending stored_bob late,
        of "''Bob''" "''pw''" "''555''" "''123456''" "''Bob''" "''pw''" "''555''" world_ok]
    by (simp add: lower_bob)
qed

text \<open>
  Claim C2, as amended. For an outstanding ticket that has not expired, a redemption
  (fields present, email not registered) whose code is the ticket's and whose name,
  password or phone differs from the ticket's answers \<open>DataMismatch\<close> and leaves the
  whole state, the ticket included, as it was. A later redemption for the same
  email with the original code finds the ticket: before the expiry, with the
  ticket's own name, password and phone, and Firebase creating the account, it
  answers with the new user.
\<close>

theorem data_mismatch_keeps_ticket:
  assumes "nm \<noteq> []" and "email \<noteq> []" and "pw \<noteq> []" and "ph \<noteq> []"
    and "fetch_local_user s email = None"
    and "verification_codes s (lower email) = Some t"
    and "time_now w \<le> expires_at t"
    and "name t \<noteq> nm \<or> password t \<noteq> pw \<or> phone t \<noteq> ph"
    and "name t \<noteq> []" and "password t \<noteq> []" and "phone t \<noteq> []" and "code t \<noteq> []"
    and "time_now w2 \<le> expires_at t"
    and "create_user w2 email (password t) (strip (name t)) = Created uid"
  shows "register_user w s nm email pw ph (code t) = (DataMismatch, s)
       \<and> fst (register_user w2 s (name t) email (password t) (phone t) (code t)) =
           (UserBody \<lparr>view_id = next_rowid s, view_name = name t, view_email = email,
                       view_phone = phone t\<rparr>, 200)"
proof -
  have "register_user w s nm email pw ph (code t) = (DataMismatch, s)"
    using assms(1-8,12) by (simp add: register_user_def)
  moreover note register_user_success
    [OF assms(9) assms(2) assms(10,11,12) assms(5,6) assms(13,14)]
  ultimately show ?thesis by simp
qed

theorem data_mismatch_keeps_ticket_witness:
  "verification_codes state_pending (lower ''bob@x.com'') = Some ticket_bob
   \<and> time_now world_ok \<le> expires_at ticket_bob
   \<and> phone ticket_bob \<noteq> ''999''
   \<and> register_user world_ok state_pending ''Bob'' ''bob@x.com'' ''pw'' ''999'' ''123456''
       = (DataMismatch, state_pending)"
proof -
  have fields: "name ticket_bob = ''Bob''" "password ticket_bob = ''pw''"
    "phone ticket_bob = ''555''" "code ticket_bob = ''123456''"
    by (simp_all add: ticket_bob_def)
  have early: "time_now world_ok \<le> expires_at ticket_bob"
    by (simp add: world_ok_def ticket_bob_def)
  have soon: "time_now world_later \<le> expires_at ticket_bob"
    by (simp add: world_later_def ticket_bob_def)
  have altered: "name ticket_bob \<noteq> ''Bob'' \<or> password ticket_bob \<noteq> ''pw''
      \<or> phone ticket_bob \<noteq> ''999''"
    by (simp add: ticket_bob_def)
  have made: "create_user world_later ''bob@x.com'' (password ticket_bob)
      (strip (name ticket_bob)) = Created ''uid-1''"
    by (simp add: world_later_def world_ok_def)
  note kept = data_mismatch_keeps_ticket [OF _ _ _ _ fetch_pending stored_bob early altered
      _ _ _ _ soon made]
  from kept have "register_user world_ok state_pending ''Bob'' ''bob@x.com'' ''pw'' ''999''
      ''123456'' = (DataMismatch, state_pending)"
    by (simp add: fields)
  with stored_bob early show ?thesis
    by (simp add: fields)
qed

text \<open>
  The ticket is not removed. After the redemption with another phone has answered
  \<open>DataMismatch\<close>, the ticket of \<^verbatim>\<open>bob@x.com\<close> is still in the table, and the
  redemption with the original code and the original data does not answer
  \<open>CodeNotFound\<close>: it registers the user.
\<close>

theorem data_mismatch_purge_counterexample:
  "register_user world_ok state_pending ''Bob'' ''bob@x.com'' ''pw'' ''999'' ''123456''
     = (DataMismatch, state_pending)
   \<and> verification_codes state_pending (lower ''bob@x.com'') = Some ticket_bob
   \<and> fst (register_user world_later
          (snd (register_user world_ok state_pending ''Bob'' ''bob@x.com'' ''pw'' ''999''
                  ''123456''))
          ''Bob'' ''bob@x.com'' ''pw'' ''555'' ''123456'')
       = (UserBody \<lparr>view_id = 1, view_name = ''Bob'', view_email = ''bob@x.com'',
                    view_phone = ''555''\<rparr>, 200)
   \<and> (UserBody \<lparr>view_id = 1, view_name = ''Bob'', view_email = ''bob@x.com'',
                 view_phone = ''555''\<rparr>, 200) \<noteq> CodeNotFound"
proof -
  have fields: "name ticket_bob = ''Bob''" "password ticket_bob = ''pw''"
    "phone ticket_bob = ''555''" "code ticket_bob = ''123456''"
    "expires_at ticket_bob = 1600"
    by (simp_all add: ticket_bob_def)
  have first: "register_user world_ok state_pending ''Bob'' ''bob@x.com'' ''pw'' ''999''
      ''123456'' = (DataMismatch, state_pending)"
    by (simp add: register_user_def fetch_pending stored_bob fields world_ok_def)
  have soon: "time_now world_later \<le> expires_at ticket_bob"
    by (simp add: world_later_def ticket_bob_def)
  have made: "create_user world_later ''bob@x.com'' (password ticket_bob)
      (strip (name ticket_bob)) = Created ''uid-1''"
    by (simp add: world_later_def world_ok_def)
  have second: "fst (register_user world_later state_pending ''Bob'' ''bob@x.com'' ''pw''
      ''555'' ''123456'')
       = (UserBody \<lparr>view_id = 1, view_name = ''Bob'', view_email = ''bob@x.com'',
                    view_phone = ''555''\<rparr>, 200)"
    using register_user_success [OF _ _ _ _ _ fetch_pending stored_bob soon made]
    by (simp add: fields next_rowid_pending)
  have other: "(UserBody \<lparr>view_id = 1, view_name = ''Bob'', view_email = ''bob@x.com'',
                 view_phone = ''555''\<rparr>, 200) \<noteq> CodeNotFound"
    by (simp add: CodeNotFound_def)
  from first stored_bob second other show ?thesis
    by simp
qed

section \<open>Login\<close>

text \<open>
  Claim C8. When the Firebase key is configured, the remote sign-in of a login
  (email and password present) fails with a status of 500 or more and the local
  check fails too, the answer carries the message and the status of the remote
  failure, and the state is unchanged. (The only such remote failure is the
  unreachable service, with status 503.)
\<close>

theorem outage_status_preferred:
  assumes "email \<noteq> []" and "pw \<noteq> []"
    and "truthy (FIREBASE_WEB_API_KEY w)"
    and "sign_in_with_firebase w email pw = SignInFailed m st"
    and "500 \<le> st"
    and "authenticate_locally w s email pw = LocalFailed lm lst"
  shows "login_user w s email pw = ((Message False m, st), s)"
proof -
  from sign_in_failure_status [OF assms(4,5)] have "m \<noteq> []" and "st \<noteq> 0"
    by auto
  with assms show ?thesis
    by (simp add: login_user_def)
qed

theorem outage_status_preferred_witness:
  "truthy (FIREBASE_WEB_API_KEY world_down)
   \<and> sign_in_with_firebase world_down ''bob@x.com'' ''pw''
       = SignInFailed ''Authentication service is unreachable. Please try again shortly.'' 503
   \<and> authenticate_locally world_down state_empty ''bob@x.com'' ''pw''
       = LocalFailed ''Invalid email or password'' 401
   \<and> login_user world_down state_empty ''bob@x.com'' ''pw''
       = ((Message False ''Authentication service is unreachable. Please try again shortly.'',
           503), state_empty)"
proof -
  have key: "truthy (FIREBASE_WEB_API_KEY world_down)"
    by (simp add: world_down_def world_ok_def)
  have remote: "sign_in_with_firebase world_down ''bob@x.com'' ''pw''
       = SignInFailed ''Authentication service is unreachable. Please try again shortly.'' 503"
    by (simp add: sign_in_with_firebase_def world_down_def)
  have local: "authenticate_locally world_down state_empty ''bob@x.com'' ''pw''
       = LocalFailed ''Invalid email or password'' 401"
    by (simp add: authenticate_locally_def fetch_empty)
  show ?thesis
    using key remote local outage_status_preferred [OF _ _ key remote _ local]
    by simp
qed

text \<open>
  Claim C9. A login (email and password present, key configured) that Firebase
  accepts, for an email without a row in the users table, appends one row for it
  and answers with that row; exactly one row has the email afterwards. The name
  and the phone of the row are the text before the \<^verbatim>\<open>@\<close> and the empty string when
  there is no uid, the profile cannot be read, or the profile has neither a
  display name nor a phone number. Every later login for that email leaves the
  state as it is, and one that Firebase accepts answers with the same row.
\<close>

theorem local_mirror_created_once:
  assumes "email \<noteq> []" and "pw \<noteq> []"
    and "truthy (FIREBASE_WEB_API_KEY w)"
    and "sign_in_with_firebase w email pw = SignInOk uid"
    and "fetch_local_user s email = None"
    and "pw2 \<noteq> []"
    and "truthy (FIREBASE_WEB_API_KEY w2)"
    and "sign_in_with_firebase w2 email pw2 = SignInOk uid2"
  shows "login_user w s email pw =
           ((UserBody \<lparr>view_id = next_rowid s,
                        view_name = fst (new_record_fields w email uid),
                        view_email = email,
                        view_phone = snd (new_record_fields w email uid)\<rparr>, 200),
            s\<lparr>users := users s @
                [\<lparr>row_id = next_rowid s, row_name = fst (new_record_fields w email uid),
                  row_email = email, row_password = hash_password w pw,
                  row_phone = Some (snd (new_record_fields w email uid))\<rparr>],
              users_seq := next_rowid s\<rparr>)
       \<and> length (filter (\<lambda>u. row_email u = email) (users (snd (login_user w s email pw)))) = 1
       \<and> login_user w2 (snd (login_user w s email pw)) email pw2 =
           (fst (login_user w s email pw), snd (login_user w s email pw))
       \<and> snd (login_user w3 (snd (login_user w s email pw)) email pw3) =
           snd (login_user w s email pw)
       \<and> (\<not> truthy uid \<or> get_user w (the uid) = UserNotFoundError
              \<or> get_user w (the uid) = ProfileException
              \<or> get_user w (the uid) = Profile None None
           \<longrightarrow> new_record_fields w email uid = (local_part email, []))"
proof -
  define r where "r = \<lparr>row_id = next_rowid s, row_name = fst (new_record_fields w email uid),
                  row_email = email, row_password = hash_password w pw,
                  row_phone = Some (snd (new_record_fields w email uid))\<rparr>"
  define s1 where "s1 = s\<lparr>users := users s @ [r], users_seq := next_rowid s\<rparr>"
  define v where "v = UserBody \<lparr>view_id = next_rowid s,
                        view_name = fst (new_record_fields w email uid),
                        view_email = email,
                        view_phone = snd (new_record_fields w email uid)\<rparr>"
  have view: "build_user_response (Some r) = v"
    by (simp add: build_user_response_def r_def v_def)
  have first: "login_user w s email pw = ((v, 200), s1)"
    using login_remote_success [OF assms(1-4), of s] ensure_fresh [OF assms(5), of w pw uid]
    by (simp add: r_def s1_def flip: view)
  have one: "length (filter (\<lambda>u. row_email u = email) (users s1)) = 1"
    using filter_absent_email [OF assms(5)] by (simp add: s1_def r_def)
  have found: "fetch_local_user s1 email = Some r"
    using fetch_after_append [OF assms(5), where r = r and i = "next_rowid s"]
    by (simp add: s1_def r_def)
  have again: "login_user w2 s1 email pw2 = ((v, 200), s1)"
    using login_remote_success [OF assms(1) assms(6-8), of s1]
      ensure_existing [OF found, of w2 pw2 uid2]
    by (simp add: view)
  have later: "snd (login_user w3 s1 email pw3) = s1"
    using found by (rule login_existing_state)
  have dflt: "\<not> truthy uid \<or> get_user w (the uid) = UserNotFoundError
              \<or> get_user w (the uid) = ProfileException
              \<or> get_user w (the uid) = Profile None None
         \<longrightarrow> new_record_fields w email uid = (local_part email, [])"
    using new_record_fields_default [of uid w email] by auto
  from first have c1: "login_user w s email pw =
           ((UserBody \<lparr>view_id = next_rowid s,
                        view_name = fst (new_record_fields w email uid),
                        view_email = email,
                        view_phone = snd (new_record_fields w email uid)\<rparr>, 200),
            s\<lparr>users := users s @
                [\<lparr>row_id = next_rowid s, row_name = fst (new_record_fields w email uid),
                  row_email = email, row_password = hash_password w pw,
                  row_phone = Some (snd (new_record_fields w email uid))\<rparr>],
              users_seq := next_rowid s\<rparr>)"
    by (simp add: v_def s1_def r_def)
  from one have c2: "length (filter (\<lambda>u. row_email u = email)
      (users (snd (login_user w s email pw)))) = 1"
    by (simp add: first)
  from again have c3: "login_user w2 (snd (login_user w s email pw)) email pw2 =
           (fst (login_user w s email pw), snd (login_user w s email pw))"
    by (simp add: first)
  from later have c4: "snd (login_user w3 (snd (login_user w s email pw)) email pw3) =
           snd (login_user w s email pw)"
    by (simp add: first)
  from c1 c2 c3 c4 dflt show ?thesis by blast
qed

theorem local_mirror_created_once_witness:
  "sign_in_with_firebase world_ok ''bob@x.com'' ''pw'' = SignInOk (Some ''uid-1'')
   \<and> get_user world_ok (the (Some ''uid-1'')) = UserNotFoundError
   \<and> fetch_local_user state_empty ''bob@x.com'' = None
   \<and> login_user world_ok state_empty ''bob@x.com'' ''pw'' =
        ((UserBody \<lparr>view_id = 1, view_name = ''bob'', view_email = ''bob@x.com'',
                     view_phone = []\<rparr>, 200),
         state_empty\<lparr>users :=
             [\<lparr>row_id = 1, row_name = ''bob'', row_email = ''bob@x.com'',
               row_password = ''sha256:pw'', row_phone = Some []\<rparr>],
           users_seq := 1\<rparr>)
   \<and> login_user world_later (snd (login_user world_ok state_empty ''bob@x.com'' ''pw''))
        ''bob@x.com'' ''other''
       = login_user world_ok state_empty ''bob@x.com'' ''pw''"
proof -
  have key: "truthy (FIREBASE_WEB_API_KEY world_ok)" "truthy (FIREBASE_WEB_API_KEY world_later)"
    by (simp_all add: world_later_def world_ok_def)
  have signed_in: "sign_in_with_firebase world_ok ''bob@x.com'' ''pw''
      = SignInOk (Some ''uid-1'')"
    by (simp add: sign_in_with_firebase_def world_ok_def)
  have signed_in_again: "sign_in_with_firebase world_later ''bob@x.com'' ''other''
      = SignInOk (Some ''uid-1'')"
    by (simp add: sign_in_with_firebase_def world_later_def world_ok_def)
  have profile: "get_user world_ok (the (Some ''uid-1'')) = UserNotFoundError"
    by (simp add: world_ok_def)
  have part: "local_part ''bob@x.com'' = ''bob''"
    by (simp add: local_part_def)
  have hash: "hash_password world_ok ''pw'' = ''sha256:pw''"
    by (simp add: hash_password_def world_ok_def)
  have no_users: "users state_empty = []"
    by (simp add: state_empty_def)
  note once = local_mirror_created_once [OF _ _ key(1) signed_in fetch_empty _ key(2)
      signed_in_again, where ?w3.0 = world_ok and ?pw3.0 = "''pw''"]
  from once profile have fields:
    "new_record_fields world_ok ''bob@x.com'' (Some ''uid-1'') = (''bob'', [])"
    by (simp add: part)
  from once [THEN conjunct1] have first:
    "login_user world_ok state_empty ''bob@x.com'' ''pw'' =
        ((UserBody \<lparr>view_id = 1, view_name = ''bob'', view_email = ''bob@x.com'',
                     view_phone = []\<rparr>, 200),
         state_empty\<lparr>users :=
             [\<lparr>row_id = 1, row_name = ''bob'', row_email = ''bob@x.com'',
               row_password = ''sha256:pw'', row_phone = Some []\<rparr>],
           users_seq := 1\<rparr>)"
    by (simp add: fields next_rowid_empty hash no_users)
  from once [THEN conjunct2, THEN conjunct2, THEN conjunct1] have second:
    "login_user world_later (snd (login_user world_ok state_empty ''bob@x.com'' ''pw''))
        ''bob@x.com'' ''other''
       = login_user world_ok state_empty ''bob@x.com'' ''pw''"
    by simp
  from signed_in profile fetch_empty first second show ?thesis
    by blast
qed

text \<open>
  Claim C10. A login that does not answer with success leaves the state, that is the
  users table and the table of tickets, exactly as it was. A login changes the state
  only when the key is configured, the remote sign-in has succeeded and the answer
  is a success.
\<close>

theorem failed_login_changes_nothing:
  "(\<not> succeeded (fst (login_user w s email pw)) \<longrightarrow> snd (login_user w s email pw) = s)
   \<and> (snd (login_user w s email pw) \<noteq> s \<longrightarrow>
        truthy (FIREBASE_WEB_API_KEY w) \<and> succeeded (fst (login_user w s email pw))
        \<and> (\<exists>uid. sign_in_with_firebase w email pw = SignInOk uid))"
proof (cases "email \<noteq> [] \<and> pw \<noteq> [] \<and> truthy (FIREBASE_WEB_API_KEY w)
              \<and> (\<exists>uid. sign_in_with_firebase w email pw = SignInOk uid)")
  case True
  then obtain uid where ok: "sign_in_with_firebase w email pw = SignInOk uid" by blast
  show ?thesis
  proof (cases "ensure_local_user_record w s email pw uid")
    case None
    with True ok show ?thesis by (simp add: login_user_def)
  next
    case (Some p)
    obtain user s' where p: "p = (user, s')" by (cases p)
    with Some ensure_result obtain u where "user = Some u" by blast
    with True ok Some p show ?thesis
      by (simp add: login_user_def succeeded_build_user_response)
  qed
next
  case False
  then have "snd (login_user w s email pw) = s"
    by (rule login_without_remote_success)
  with False show ?thesis by auto
qed

theorem failed_login_changes_nothing_witness:
  "\<not> succeeded (fst (login_user world_down state_pending ''bob@x.com'' ''pw''))
   \<and> snd (login_user world_down state_pending ''bob@x.com'' ''pw'') = state_pending
   \<and> snd (login_user world_ok state_empty ''bob@x.com'' ''pw'') \<noteq> state_empty
   \<and> succeeded (fst (login_user world_ok state_empty ''bob@x.com'' ''pw''))"
proof -
  have key: "truthy (FIREBASE_WEB_API_KEY world_down)" "truthy (FIREBASE_WEB_API_KEY world_ok)"
    by (simp_all add: world_down_def world_ok_def)
  have remote: "sign_in_with_firebase world_down ''bob@x.com'' ''pw''
       = SignInFailed ''Authentication service is unreachable. Please try again shortly.'' 503"
    by (simp add: sign_in_with_firebase_def world_down_def)
  have local: "authenticate_locally world_down state_pending ''bob@x.com'' ''pw''
       = LocalFailed ''Invalid email or password'' 401"
    by (simp add: authenticate_locally_def fetch_pending)
  have failed: "\<not> succeeded (fst (login_user world_down state_pending ''bob@x.com'' ''pw''))"
    using key(1) by (simp add: login_user_def remote local)
  have signed_in: "sign_in_with_firebase world_ok ''bob@x.com'' ''pw''
      = SignInOk (Some ''uid-1'')"
    by (simp add: sign_in_with_firebase_def world_ok_def)
  have changed: "snd (login_user world_ok state_empty ''bob@x.com'' ''pw'') \<noteq> state_empty"
    using login_remote_success [OF _ _ key(2) signed_in, of state_empty]
      ensure_fresh [OF fetch_empty, of world_ok "''bob@x.com''" "''pw''" "Some ''uid-1''"]
    by (simp add: state_empty_def)
  from failed changed
    failed_login_changes_nothing [of world_down state_pending "''bob@x.com''" "''pw''"]
    failed_login_changes_nothing [of world_ok state_empty "''bob@x.com''" "''pw''"]
  show ?thesis
    by blast
qed


end
